theory Spec2Isabelle
  imports Complex_Main
begin

section \<open>Data model\<close>

text \<open>
  Prices and volumes are Python/numpy floats. They are modelled as real numbers:
  a data value is a \<^typ>\<open>real\<close>, and a computed float that may be NaN is a
  \<^typ>\<open>real option\<close> with \<open>None\<close> for NaN. Rounding is not modelled.
\<close>

datatype exn = KeyError | IndexError | Broker_exn string

record candle =
  c_open :: real
  high :: real
  low :: real
  close :: real
  volume :: real

text \<open>A frame after \<open>calculate_moving_averages\<close>: the candle columns and the two
  moving-average columns.\<close>

record row = candle +
  MA_fast :: "real option"
  MA_slow :: "real option"

datatype trend = Up | Down | Flat

datatype breakout = Breakout_up | Breakout_down

datatype direction = Call | Put

text \<open>The periods are window lengths: natural numbers (pandas rejects a negative
  window with ValueError before it computes anything).\<close>

record analyzer =
  ma_fast :: nat
  ma_slow :: nat
  volume_period :: nat

section \<open>Float comparisons and pandas column operations\<close>

text \<open>Every ordered comparison with NaN is false.\<close>

definition fgt :: "real option \<Rightarrow> real option \<Rightarrow> bool" where
  "fgt a b = (case a of None \<Rightarrow> False
              | Some x \<Rightarrow> (case b of None \<Rightarrow> False | Some y \<Rightarrow> x > y))"

definition flt :: "real option \<Rightarrow> real option \<Rightarrow> bool" where
  "flt a b = (case a of None \<Rightarrow> False
              | Some x \<Rightarrow> (case b of None \<Rightarrow> False | Some y \<Rightarrow> x < y))"

text \<open>numpy division: dividing by zero gives no finite number (inf or nan).\<close>

definition fdiv :: "real \<Rightarrow> real \<Rightarrow> real option" where
  "fdiv a b = (if b = 0 then None else Some (a / b))"

text \<open>
  \<open>Series.rolling(n).mean()\<close>: right-aligned windows of \<open>n\<close> values, with
  \<open>min_periods = n\<close>. Row \<open>i\<close> holds the mean of rows \<open>i - n + 1 .. i\<close>, and NaN
  while fewer than \<open>n\<close> rows are there; a window of length 0 has no observation and
  gives NaN everywhere. Which rows are NaN is as in pandas; the value of a row is the
  exact mean, from which the float that pandas computes can differ in its last digits.
\<close>

definition rolling_mean_at :: "nat \<Rightarrow> real list \<Rightarrow> nat \<Rightarrow> real option" where
  "rolling_mean_at n xs i =
     (if 0 < n \<and> n \<le> Suc i
      then Some (sum_list (take n (drop (Suc i - n) xs)) / real n)
      else None)"

definition rolling_mean :: "nat \<Rightarrow> real list \<Rightarrow> real option list" where
  "rolling_mean n xs = map (rolling_mean_at n xs) [0..<length xs]"

text \<open>\<open>Series.iloc[-1]\<close> raises IndexError on a column without rows.\<close>

definition iloc_last :: "'a list \<Rightarrow> exn + 'a" where
  "iloc_last xs = (case xs of [] \<Rightarrow> Inl IndexError | _ \<Rightarrow> Inr (last xs))"

section \<open>TechnicalAnalyzer\<close>

definition calculate_moving_averages :: "analyzer \<Rightarrow> candle list \<Rightarrow> row list" where
  "calculate_moving_averages self df =
     map (\<lambda>(c, f, s).
            \<lparr>c_open = c_open c, high = high c, low = low c, close = close c,
             volume = volume c, MA_fast = f, MA_slow = s\<rparr>)
         (zip df (zip (rolling_mean (ma_fast self) (map close df))
                      (rolling_mean (ma_slow self) (map close df))))"

definition detect_trend :: "row list \<Rightarrow> exn + trend" where
  "detect_trend df =
     (case iloc_last df of
        Inl e \<Rightarrow> Inl e
      | Inr l \<Rightarrow>
          (let fast = MA_fast l; slow = MA_slow l
           in if fgt fast slow then Inr Up
              else if flt fast slow then Inr Down
              else Inr Flat))"

text \<open>\<open>min()\<close> and \<open>max()\<close> of a column without rows are NaN and do not raise; the
  read of the last close does.\<close>

definition detect_breakout :: "'a candle_scheme list \<Rightarrow> exn + breakout option" where
  "detect_breakout df =
     (case iloc_last (map close df) of
        Inl e \<Rightarrow> Inl e
      | Inr last_close \<Rightarrow>
          (let support = Min (set (map low df));
               resistance = Max (set (map high df))
           in if last_close > resistance then Inr (Some Breakout_up)
              else if last_close < support then Inr (Some Breakout_down)
              else Inr None))"

section \<open>Session controller (bot.py)\<close>

type_synonym asset = string

record config =
  assets :: "asset list"
  timeframe_main :: int
  min_payout :: real
  max_payout :: real
  trend_ma_fast :: nat
  trend_ma_slow :: nat
  volume_period :: nat
  stop_win_victories :: int

text \<open>\<open>pd.Timestamp\<close>: the calendar day (as a day number) and the time within it.\<close>

record timestamp =
  date :: int
  time_of_day :: real

record session =
  daily_wins :: int
  last_trade_date :: "timestamp option"

record features =
  f_pattern_name :: string
  f_breakout :: "breakout option"
  f_trend :: trend
  f_volume_ratio :: "real option"
  f_payout :: real

text \<open>The log lines of \<open>main\<close>, one constructor per message.\<close>

datatype log_msg =
    Main_loop
  | News_wait
  | Daily_stop_win
  | Candle_error exn
  | Entering asset direction real
  | Order_error exn
  | Next_cycle

text \<open>The calls \<open>main\<close> makes to its collaborators, in the order it makes them.\<close>

datatype event =
    Log log_msg
  | Check_and_train_daily
  | Check_high_impact_news
  | Sleep int
  | Get_all_profit
  | Get_candles asset int nat
  | Can_trade asset
  | Predict_high_chance features
  | Next_amount asset real
  | Buy real asset direction
  | Check_win nat
  | Register_trade asset bool
  | Log_trade features bool

text \<open>
  What the collaborators answer while one instrument is processed: the candles (or the
  exception of \<open>get_candles_df\<close>), the hits of the pattern library, the answers of the
  risk manager and of the predictor, and the broker's answers to \<open>buy\<close> and
  \<open>check_win\<close>.
\<close>

record responses =
  candles_resp :: "exn + candle list"
  patterns :: "(string \<times> int) list"
  can_trade :: bool
  high_chance :: bool
  amount :: real
  buy_resp :: "exn + nat"
  check_win_resp :: "exn + bool"

text \<open>What one pass of the \<open>while\<close> loop observes: the news check, the clock, the payout
  table and the answers for the instrument at each position of \<open>config['assets']\<close>.\<close>

record env =
  news :: bool
  now :: timestamp
  all_profit :: "asset \<Rightarrow> (string \<Rightarrow> real option) option"
  resp :: "nat \<Rightarrow> responses"

definition make_analyzer :: "config \<Rightarrow> analyzer" where
  "make_analyzer cfg =
     \<lparr>ma_fast = trend_ma_fast cfg, ma_slow = trend_ma_slow cfg,
      volume_period = config.volume_period cfg\<rparr>"

text \<open>\<open>all_profit.get(asset, {}).get('turbo', 0)\<close>\<close>

definition turbo_payout :: "(asset \<Rightarrow> (string \<Rightarrow> real option) option) \<Rightarrow> asset \<Rightarrow> real" where
  "turbo_payout ap a =
     (case ap a of None \<Rightarrow> 0
      | Some m \<Rightarrow> (case m ''turbo'' of None \<Rightarrow> 0 | Some p \<Rightarrow> p))"

text \<open>\<open>patterns[0][0] if patterns else None\<close>\<close>

definition first_pattern :: "(string \<times> int) list \<Rightarrow> string option" where
  "first_pattern ps = (case ps of [] \<Rightarrow> None | p # _ \<Rightarrow> Some (fst p))"

text \<open>Lines 103-104: the last volume over the rolling mean volume, or 0 unless that
  mean compares greater than 0.\<close>

definition volume_ratio :: "nat \<Rightarrow> 'a candle_scheme list \<Rightarrow> exn + real option" where
  "volume_ratio period df =
     (case iloc_last df of
        Inl e \<Rightarrow> Inl e
      | Inr last_candle \<Rightarrow>
          (case iloc_last (rolling_mean period (map volume df)) of
             Inl e \<Rightarrow> Inl e
           | Inr avg_volume \<Rightarrow>
               Inr (case avg_volume of
                      None \<Rightarrow> Some 0
                    | Some a \<Rightarrow> if a > 0 then fdiv (volume last_candle) a else Some 0)))"

text \<open>Truthiness of an optional string: \<open>None\<close> and the empty string are false.\<close>

definition truthy :: "string option \<Rightarrow> bool" where
  "truthy s = (case s of None \<Rightarrow> False | Some t \<Rightarrow> t \<noteq> [])"

definition high_chance_basic ::
  "breakout option \<Rightarrow> string option \<Rightarrow> real option \<Rightarrow> trend \<Rightarrow> bool" where
  "high_chance_basic b pattern_name ratio t =
     (b \<noteq> None \<and> truthy pattern_name \<and> fgt ratio (Some 1) \<and> t \<noteq> Flat)"

text \<open>Lines 118-122.\<close>

definition infer_direction :: "breakout option \<Rightarrow> trend \<Rightarrow> direction option" where
  "infer_direction b t =
     (if b = Some Breakout_up \<and> t = Up then Some Call
      else if b = Some Breakout_down \<and> t = Down then Some Put
      else None)"

text \<open>
  Lines 95-114. A frame built from an empty list of candles has no column at all, so
  \<open>df['close']\<close> in \<open>calculate_moving_averages\<close> raises KeyError.
\<close>

definition analyse ::
  "config \<Rightarrow> analyzer \<Rightarrow> (string \<times> int) list \<Rightarrow> real \<Rightarrow> candle list
     \<Rightarrow> exn + (breakout option \<times> trend \<times> features)" where
  "analyse cfg technical pats payout df0 =
     (if df0 = [] then Inl KeyError
      else
        (let df = calculate_moving_averages technical df0
         in case detect_breakout df of
              Inl e \<Rightarrow> Inl e
            | Inr b \<Rightarrow>
                (case detect_trend df of
                   Inl e \<Rightarrow> Inl e
                 | Inr t \<Rightarrow>
                     (case volume_ratio (config.volume_period cfg) df of
                        Inl e \<Rightarrow> Inl e
                      | Inr ratio \<Rightarrow>
                          (let pattern_name = first_pattern pats
                           in Inr (b, t,
                                \<lparr>f_pattern_name =
                                   (case pattern_name of
                                      None \<Rightarrow> ''unknown''
                                    | Some p \<Rightarrow> if p = [] then ''unknown'' else p),
                                 f_breakout = b, f_trend = t,
                                 f_volume_ratio = ratio, f_payout = payout\<rparr>))))))"

text \<open>Lines 130-135: an exception of \<open>buy\<close> or \<open>check_win\<close> is logged and the result
  is \<open>False\<close>.\<close>

definition execute_order :: "responses \<Rightarrow> real \<Rightarrow> asset \<Rightarrow> direction \<Rightarrow> event list \<times> bool" where
  "execute_order r amt a d =
     (case buy_resp r of
        Inl exc \<Rightarrow> ([Buy amt a d, Log (Order_error exc)], False)
      | Inr order_id \<Rightarrow>
          (case check_win_resp r of
             Inl exc \<Rightarrow> ([Buy amt a d, Check_win order_id, Log (Order_error exc)], False)
           | Inr result \<Rightarrow> ([Buy amt a d, Check_win order_id], result)))"

text \<open>
  The body of the \<open>for\<close> loop for one instrument. The result is the calls made, the
  exception that leaves the loop (if any) and the value of \<open>daily_wins\<close> afterwards.
\<close>

definition process_asset ::
  "config \<Rightarrow> analyzer \<Rightarrow> (asset \<Rightarrow> (string \<Rightarrow> real option) option) \<Rightarrow> responses
     \<Rightarrow> int \<Rightarrow> asset \<Rightarrow> event list \<times> exn option \<times> int" where
  "process_asset cfg technical ap r wins a =
     (let payout = turbo_payout ap a;
          fetch = Get_candles a (timeframe_main cfg) 100
      in if payout < min_payout cfg \<or> payout > max_payout cfg then ([], None, wins)
         else
           (case candles_resp r of
              Inl exc \<Rightarrow> ([fetch, Log (Candle_error exc)], None, wins)
            | Inr df0 \<Rightarrow>
                (case analyse cfg technical (patterns r) payout df0 of
                   Inl e \<Rightarrow> ([fetch], Some e, wins)
                 | Inr (b, t, feats) \<Rightarrow>
                     if b = None then ([fetch], None, wins)
                     else if \<not> can_trade r then ([fetch, Can_trade a], None, wins)
                     else
                       (case infer_direction b t of
                          None \<Rightarrow> ([fetch, Can_trade a], None, wins)
                        | Some d \<Rightarrow>
                            if \<not> high_chance r
                            then ([fetch, Can_trade a, Predict_high_chance feats], None, wins)
                            else
                              (let amt = amount r;
                                   (evs, result) = execute_order r amt a d
                               in ([fetch, Can_trade a, Predict_high_chance feats,
                                    Next_amount a payout, Log (Entering a d amt)]
                                   @ evs
                                   @ [Register_trade a result, Log_trade feats result],
                                   None,
                                   if result then wins + 1 else wins))))))"

text \<open>The \<open>for\<close> loop over \<open>config['assets']\<close>, from position \<open>i\<close> on.\<close>

fun scan ::
  "config \<Rightarrow> analyzer \<Rightarrow> (asset \<Rightarrow> (string \<Rightarrow> real option) option) \<Rightarrow> (nat \<Rightarrow> responses)
     \<Rightarrow> nat \<Rightarrow> int \<Rightarrow> asset list \<Rightarrow> event list \<times> exn option \<times> int" where
  "scan cfg technical ap rs i wins [] = ([], None, wins)"
| "scan cfg technical ap rs i wins (a # rest) =
     (case process_asset cfg technical ap (rs i) wins a of
        (ev, Some e, w) \<Rightarrow> (ev, Some e, w)
      | (ev, None, w) \<Rightarrow>
          (case scan cfg technical ap rs (Suc i) w rest of
             (ev', x, w') \<Rightarrow> (ev @ ev', x, w')))"

text \<open>Lines 68-71.\<close>

definition rollover :: "timestamp \<Rightarrow> session \<Rightarrow> session" where
  "rollover t s =
     \<lparr>daily_wins =
        (case last_trade_date s of
           None \<Rightarrow> 0
         | Some l \<Rightarrow> if date l < date t then 0 else daily_wins s),
      last_trade_date = Some t\<rparr>"

text \<open>
  One pass of the \<open>while True\<close> loop: the calls made, the exception that ends
  \<open>main\<close> (if any) and the session variables at that point.
\<close>

definition cycle :: "config \<Rightarrow> env \<Rightarrow> session \<Rightarrow> event list \<times> exn option \<times> session" where
  "cycle cfg e s =
     (let start = [Log Main_loop, Check_and_train_daily, Check_high_impact_news]
      in if news e then (start @ [Log News_wait, Sleep 60], None, s)
         else
           (let s1 = rollover (now e) s
            in if daily_wins s1 \<ge> stop_win_victories cfg
               then (start @ [Log Daily_stop_win, Sleep (60 * 60)], None, s1)
               else
                 (case scan cfg (make_analyzer cfg) (all_profit e) (resp e) 0
                         (daily_wins s1) (assets cfg) of
                    (ev, Some x, w) \<Rightarrow>
                      (start @ [Get_all_profit] @ ev, Some x, s1\<lparr>daily_wins := w\<rparr>)
                  | (ev, None, w) \<Rightarrow>
                      (start @ [Get_all_profit] @ ev
                         @ [Log Next_cycle, Sleep (timeframe_main cfg)],
                       None, s1\<lparr>daily_wins := w\<rparr>))))"

text \<open>The first passes of the loop, one environment per pass; an exception ends it.\<close>

fun run :: "config \<Rightarrow> env list \<Rightarrow> session \<Rightarrow> event list \<times> exn option \<times> session" where
  "run cfg [] s = ([], None, s)"
| "run cfg (e # es) s =
     (case cycle cfg e s of
        (ev, Some x, s') \<Rightarrow> (ev, Some x, s')
      | (ev, None, s') \<Rightarrow>
          (case run cfg es s' of (ev', x, s'') \<Rightarrow> (ev @ ev', x, s'')))"

text \<open>The winning trades reported to the risk manager in a trace.\<close>

fun wins_in :: "event list \<Rightarrow> int" where
  "wins_in [] = 0"
| "wins_in (Register_trade a True # evs) = 1 + wins_in evs"
| "wins_in (ev # evs) = wins_in evs"

text \<open>The calls that scan an instrument or trade it.\<close>

fun scanning :: "event \<Rightarrow> bool" where
  "scanning Get_all_profit = True"
| "scanning (Get_candles a tf n) = True"
| "scanning (Can_trade a) = True"
| "scanning (Predict_high_chance f) = True"
| "scanning (Next_amount a p) = True"
| "scanning (Buy amt a d) = True"
| "scanning (Check_win oid) = True"
| "scanning (Register_trade a r) = True"
| "scanning (Log_trade f r) = True"
| "scanning ev = False"

section \<open>Test scenario of the specification\<close>

text \<open>Sixty candles whose close rises from 100 to 160 in equal steps; every candle
  opens at its low and closes at its high.\<close>

definition rising_window :: "candle list" where
  "rising_window =
     map (\<lambda>i. \<lparr>c_open = 99 + 60 * real i / 59, high = 100 + 60 * real i / 59,
               low = 99 + 60 * real i / 59, close = 100 + 60 * real i / 59,
               volume = 1000\<rparr>)
         [0..<60]"

text \<open>A configuration, a payout table and collaborator answers for the examples below.\<close>

definition example_config :: config where
  "example_config =
     \<lparr>assets = [''EURUSD'', ''GBPUSD''], timeframe_main = 60,
      min_payout = 7 / 10, max_payout = 19 / 20,
      trend_ma_fast = 1, trend_ma_slow = 2, volume_period = 1,
      stop_win_victories = 2\<rparr>"

definition example_payouts :: "asset \<Rightarrow> (string \<Rightarrow> real option) option" where
  "example_payouts a = Some (\<lambda>k. if k = ''turbo'' then Some (4 / 5) else None)"

text \<open>Two candles with \<open>low \<le> close \<le> high\<close>.\<close>

definition quiet_candles :: "candle list" where
  "quiet_candles =
     [\<lparr>c_open = 1, high = 2, low = 1, close = 2, volume = 10\<rparr>,
      \<lparr>c_open = 2, high = 3, low = 2, close = 3, volume = 30\<rparr>]"

text \<open>Two candles, the last one closing above its own high.\<close>

definition breakout_candles :: "candle list" where
  "breakout_candles =
     [\<lparr>c_open = 1, high = 1, low = 1, close = 1, volume = 10\<rparr>,
      \<lparr>c_open = 1, high = 2, low = 1, close = 3, volume = 30\<rparr>]"

definition fetch_failure :: responses where
  "fetch_failure =
     \<lparr>candles_resp = Inl (Broker_exn ''timeout''), patterns = [], can_trade = True,
      high_chance = True, amount = 1, buy_resp = Inr 7, check_win_resp = Inr True\<rparr>"

definition order_failure :: responses where
  "order_failure =
     \<lparr>candles_resp = Inr breakout_candles, patterns = [(''CDL_DOJI'', 100)],
      can_trade = True, high_chance = True, amount = 1,
      buy_resp = Inl (Broker_exn ''rejected''), check_win_resp = Inr True\<rparr>"

definition winning_trade :: responses where
  "winning_trade =
     \<lparr>candles_resp = Inr breakout_candles, patterns = [(''CDL_DOJI'', 100)],
      can_trade = True, high_chance = True, amount = 1,
      buy_resp = Inr 7, check_win_resp = Inr True\<rparr>"

definition example_failures :: "nat \<Rightarrow> responses" where
  "example_failures i = (if i = 0 then fetch_failure else order_failure)"

definition one_win :: "nat \<Rightarrow> responses" where
  "one_win i = (if i = 0 then winning_trade else fetch_failure)"

definition winning_cycle :: env where
  "winning_cycle =
     \<lparr>news = False, now = \<lparr>date = 11, time_of_day = 36000\<rparr>,
      all_profit = example_payouts, resp = one_win\<rparr>"

definition news_cycle :: env where
  "news_cycle =
     \<lparr>news = True, now = \<lparr>date = 11, time_of_day = 36000\<rparr>,
      all_profit = example_payouts, resp = one_win\<rparr>"

definition example_features :: features where
  "example_features =
     \<lparr>f_pattern_name = ''CDL_DOJI'', f_breakout = Some Breakout_up, f_trend = Up,
      f_volume_ratio = Some 1, f_payout = 4 / 5\<rparr>"

text \<open>The broker answers the first instrument with no candle at all.\<close>

definition empty_frame :: responses where
  "empty_frame =
     \<lparr>candles_resp = Inr [], patterns = [], can_trade = True, high_chance = True,
      amount = 1, buy_resp = Inr 7, check_win_resp = Inr True\<rparr>"

definition empty_then_win :: "nat \<Rightarrow> responses" where
  "empty_then_win i = (if i = 0 then empty_frame else winning_trade)"


section \<open>Basic facts\<close>

lemma rolling_mean_last:
  "xs \<noteq> [] \<Longrightarrow> last (rolling_mean n xs) = rolling_mean_at n xs (length xs - 1)"
  by (simp add: rolling_mean_def last_map)

lemma iloc_last_Nil: "iloc_last [] = Inl IndexError"
  by (simp add: iloc_last_def)

lemma iloc_last_nonempty: "xs \<noteq> [] \<Longrightarrow> iloc_last xs = Inr (last xs)"
  by (cases xs) (simp_all add: iloc_last_def)

lemma length_rolling_mean: "length (rolling_mean n xs) = length xs"
  by (simp add: rolling_mean_def)

lemma length_calculate_moving_averages:
  "length (calculate_moving_averages a df) = length df"
  by (simp add: calculate_moving_averages_def length_rolling_mean)

lemma nth_calculate_moving_averages:
  assumes "i < length df"
  shows "calculate_moving_averages a df ! i =
           \<lparr>c_open = c_open (df ! i), high = high (df ! i), low = low (df ! i),
            close = close (df ! i), volume = volume (df ! i),
            MA_fast = rolling_mean_at (ma_fast a) (map close df) i,
            MA_slow = rolling_mean_at (ma_slow a) (map close df) i\<rparr>"
  using assms
  by (simp add: calculate_moving_averages_def length_rolling_mean rolling_mean_def)

lemma columns_calculate_moving_averages:
  "map low (calculate_moving_averages a df) = map low df"
  "map high (calculate_moving_averages a df) = map high df"
  "map close (calculate_moving_averages a df) = map close df"
  "map volume (calculate_moving_averages a df) = map volume df"
  by (rule nth_equalityI;
      simp add: length_calculate_moving_averages nth_calculate_moving_averages)+

lemma last_calculate_moving_averages:
  assumes "df \<noteq> []"
  shows "MA_fast (last (calculate_moving_averages a df)) =
           rolling_mean_at (ma_fast a) (map close df) (length df - 1)"
    and "MA_slow (last (calculate_moving_averages a df)) =
           rolling_mean_at (ma_slow a) (map close df) (length df - 1)"
    and "volume (last (calculate_moving_averages a df)) = volume (last df)"
    and "close (last (calculate_moving_averages a df)) = close (last df)"
proof -
  have ne: "calculate_moving_averages a df \<noteq> []"
    using assms length_calculate_moving_averages [of a df] by auto
  have i: "length df - Suc 0 < length df" using assms by simp
  have l: "last (calculate_moving_averages a df) = calculate_moving_averages a df ! (length df - 1)"
    using ne by (simp add: last_conv_nth length_calculate_moving_averages)
  show "MA_fast (last (calculate_moving_averages a df)) =
           rolling_mean_at (ma_fast a) (map close df) (length df - 1)"
    and "MA_slow (last (calculate_moving_averages a df)) =
           rolling_mean_at (ma_slow a) (map close df) (length df - 1)"
    and "volume (last (calculate_moving_averages a df)) = volume (last df)"
    and "close (last (calculate_moving_averages a df)) = close (last df)"
    using assms by (simp_all add: l nth_calculate_moving_averages [OF i] last_conv_nth)
qed

lemma detect_breakout_nonempty:
  assumes "df \<noteq> []"
  shows "detect_breakout df =
           (if close (last df) > Max (set (map high df)) then Inr (Some Breakout_up)
            else if close (last df) < Min (set (map low df)) then Inr (Some Breakout_down)
            else Inr None)"
  using assms by (simp add: detect_breakout_def iloc_last_nonempty last_map)

lemma detect_breakout_Nil: "detect_breakout [] = Inl IndexError"
  by (simp add: detect_breakout_def iloc_last_Nil)

lemma last_high_le_Max:
  assumes "df \<noteq> []"
  shows "high (last df) \<le> Max (set (map high df))"
  using assms by (intro Max_ge) auto

lemma Min_le_last_low:
  assumes "df \<noteq> []"
  shows "Min (set (map low df)) \<le> low (last df)"
  using assms by (intro Min_le) auto

lemma well_formed_no_breakout:
  assumes "df \<noteq> []" and "low (last df) \<le> close (last df)" and "close (last df) \<le> high (last df)"
  shows "detect_breakout df = Inr None"
proof -
  define R where "R = Max (set (map high df))"
  define S where "S = Min (set (map low df))"
  have eq: "detect_breakout df =
              (if close (last df) > R then Inr (Some Breakout_up)
               else if close (last df) < S then Inr (Some Breakout_down)
               else Inr None)"
    unfolding R_def S_def by (rule detect_breakout_nonempty [OF assms(1)])
  have "high (last df) \<le> R" and "S \<le> low (last df)"
    unfolding R_def S_def
    by (rule last_high_le_Max [OF assms(1)], rule Min_le_last_low [OF assms(1)])
  then show ?thesis
    using assms(2,3) by (simp add: eq)
qed

lemma rolling_mean_at_short: "Suc i < n \<Longrightarrow> rolling_mean_at n xs i = None"
  by (simp add: rolling_mean_at_def)

lemma rolling_mean_last_short:
  assumes "xs \<noteq> []" and "length xs < n"
  shows "last (rolling_mean n xs) = None"
  using assms by (simp add: rolling_mean_last rolling_mean_at_def)

lemma rolling_mean_last_available:
  assumes "0 < n" and "n \<le> length xs"
  shows "last (rolling_mean n xs) = Some (sum_list (drop (length xs - n) xs) / real n)"
proof -
  have ne: "xs \<noteq> []" using assms by auto
  have "take n (drop (length xs - n) xs) = drop (length xs - n) xs"
    using assms by simp
  then show ?thesis
    using assms ne by (simp add: rolling_mean_last rolling_mean_at_def)
qed

lemma volume_ratio_nonempty:
  assumes "df \<noteq> []"
  shows "volume_ratio p df =
           Inr (case last (rolling_mean p (map volume df)) of
                  None \<Rightarrow> Some 0
                | Some a \<Rightarrow> if a > 0 then fdiv (volume (last df)) a else Some 0)"
proof -
  have "rolling_mean p (map volume df) \<noteq> []"
    using assms length_rolling_mean [of p "map volume df"] by auto
  then show ?thesis
    using assms by (simp add: volume_ratio_def iloc_last_nonempty)
qed

lemma detect_trend_nonempty:
  assumes "df \<noteq> []"
  shows "detect_trend df =
           Inr (if fgt (MA_fast (last df)) (MA_slow (last df)) then Up
                else if flt (MA_fast (last df)) (MA_slow (last df)) then Down
                else Flat)"
  using assms by (simp add: detect_trend_def iloc_last_nonempty)

lemma sum_list_constant:
  assumes "\<forall>x\<in>set xs. x = (k::real)"
  shows "sum_list xs = real (length xs) * k"
  using assms by (induction xs) (simp_all add: algebra_simps)

lemma rolling_mean_constant:
  assumes "\<forall>x\<in>set xs. x = k" and "0 < n" and "n \<le> length xs"
  shows "last (rolling_mean n xs) = Some k"
proof -
  have "\<forall>x\<in>set (drop (length xs - n) xs). x = k"
    using assms(1) by (meson in_set_dropD)
  then have "sum_list (drop (length xs - n) xs) = real (length (drop (length xs - n) xs)) * k"
    by (rule sum_list_constant)
  then show ?thesis
    using assms by (simp add: rolling_mean_last_available)
qed

lemma detect_breakout_calculate_moving_averages:
  "detect_breakout (calculate_moving_averages a df) = detect_breakout df"
  by (simp only: detect_breakout_def columns_calculate_moving_averages)

lemma volume_ratio_calculate_moving_averages:
  "volume_ratio p (calculate_moving_averages a df) = volume_ratio p df"
proof (cases "df = []")
  case True
  then show ?thesis
    by (simp add: calculate_moving_averages_def volume_ratio_def iloc_last_def)
next
  case False
  then have ne: "calculate_moving_averages a df \<noteq> []"
    using length_calculate_moving_averages [of a df] by auto
  have v: "volume (last (calculate_moving_averages a df)) = volume (last df)"
    by (rule last_calculate_moving_averages(3) [OF False])
  show ?thesis
    by (simp only: volume_ratio_nonempty [OF ne] volume_ratio_nonempty [OF False]
        columns_calculate_moving_averages v)
qed

lemma detect_trend_rolling:
  assumes "df0 \<noteq> []"
  shows "detect_trend (calculate_moving_averages a df0) =
           Inr (if fgt (last (rolling_mean (ma_fast a) (map close df0)))
                       (last (rolling_mean (ma_slow a) (map close df0)))
                then Up
                else if flt (last (rolling_mean (ma_fast a) (map close df0)))
                            (last (rolling_mean (ma_slow a) (map close df0)))
                then Down else Flat)"
proof -
  have ne: "calculate_moving_averages a df0 \<noteq> []"
    using assms length_calculate_moving_averages [of a df0] by auto
  show ?thesis
    using assms
    by (simp add: detect_trend_nonempty [OF ne] last_calculate_moving_averages rolling_mean_last)
qed

lemma rising_window_facts:
  "rising_window \<noteq> []" "length rising_window = 60"
  "close (hd rising_window) = 100" "close (last rising_window) = 160"
  "high (last rising_window) = 160" "low (last rising_window) = 159"
  by (simp_all add: rising_window_def hd_map last_map upt_rec [of 0 60])

lemma rising_window_fast:
  "last (rolling_mean 5 (map close rising_window)) = Some (9320 / 59)"
proof -
  have "drop 55 (map close rising_window) =
          map (\<lambda>i. 100 + 60 * real i / 59) [55..<60]"
    by (simp add: rising_window_def drop_map comp_def)
  then show ?thesis
    by (simp add: rolling_mean_last_available rising_window_facts upt_rec_numeral)
qed

lemma rising_window_slow:
  "last (rolling_mean 20 (map close rising_window)) = Some (8870 / 59)"
proof -
  have "drop 40 (map close rising_window) =
          map (\<lambda>i. 100 + 60 * real i / 59) [40..<60]"
    by (simp add: rising_window_def drop_map comp_def)
  then show ?thesis
    by (simp add: rolling_mean_last_available rising_window_facts upt_rec_numeral)
qed

lemma wins_in_append: "wins_in (xs @ ys) = wins_in xs + wins_in ys"
  by (induction xs rule: wins_in.induct) simp_all

lemma wins_in_nonneg: "0 \<le> wins_in evs"
  by (induction evs rule: wins_in.induct) simp_all

lemma wins_in_execute_order: "wins_in (fst (execute_order r amt a d)) = 0"
  by (simp add: execute_order_def split: sum.splits)

lemma process_asset_wins:
  assumes "process_asset cfg technical ap r wins a = (ev, x, w)"
  shows "w = wins + wins_in ev"
proof -
  have eo: "wins_in evs = 0" if "execute_order r amt a' d = (evs, res)" for amt a' d evs res
    using wins_in_execute_order [of r amt a' d] that by simp
  show ?thesis
    using assms
    by (auto simp add: process_asset_def Let_def wins_in_append eo
        split: if_splits sum.splits option.splits prod.splits)
qed

lemma scan_wins:
  assumes "scan cfg technical ap rs i wins as = (ev, x, w)"
  shows "w = wins + wins_in ev"
  using assms
proof (induction as arbitrary: i wins ev x w)
  case Nil
  then show ?case by simp
next
  case (Cons a rest)
  obtain ev1 x1 w1 where p: "process_asset cfg technical ap (rs i) wins a = (ev1, x1, w1)"
    by (cases "process_asset cfg technical ap (rs i) wins a") auto
  have w1: "w1 = wins + wins_in ev1" by (rule process_asset_wins [OF p])
  show ?case
  proof (cases x1)
    case (Some e)
    then show ?thesis using Cons.prems p w1 by auto
  next
    case None
    obtain ev2 x2 w2 where s: "scan cfg technical ap rs (Suc i) w1 rest = (ev2, x2, w2)"
      by (cases "scan cfg technical ap rs (Suc i) w1 rest") auto
    have "w2 = w1 + wins_in ev2" by (rule Cons.IH [OF s])
    then show ?thesis
      using Cons.prems p s None w1 by (auto simp add: wins_in_append)
  qed
qed

lemma rollover_fields:
  "last_trade_date (rollover t s) = Some t"
  "daily_wins (rollover t s) =
     (case last_trade_date s of None \<Rightarrow> 0
      | Some l \<Rightarrow> if date l < date t then 0 else daily_wins s)"
  by (simp_all add: rollover_def)

lemma cycle_news:
  assumes "news e"
  shows "cycle cfg e s =
           ([Log Main_loop, Check_and_train_daily, Check_high_impact_news,
             Log News_wait, Sleep 60], None, s)"
  using assms by (simp add: cycle_def)

lemma cycle_daily_stop:
  assumes "\<not> news e" and "stop_win_victories cfg \<le> daily_wins (rollover (now e) s)"
  shows "cycle cfg e s =
           ([Log Main_loop, Check_and_train_daily, Check_high_impact_news,
             Log Daily_stop_win, Sleep 3600], None, rollover (now e) s)"
  using assms by (simp add: cycle_def Let_def)

lemma cycle_wins:
  assumes "\<not> news e" and "cycle cfg e s = (ev, x, s')"
  shows "last_trade_date s' = Some (now e) \<and>
         daily_wins s' = daily_wins (rollover (now e) s) + wins_in ev"
proof (cases "stop_win_victories cfg \<le> daily_wins (rollover (now e) s)")
  case True
  then show ?thesis
    using assms by (auto simp add: cycle_daily_stop rollover_fields)
next
  case False
  obtain ev1 x1 w1 where
    sc: "scan cfg (make_analyzer cfg) (all_profit e) (resp e) 0
           (daily_wins (rollover (now e) s)) (assets cfg) = (ev1, x1, w1)"
    by (cases "scan cfg (make_analyzer cfg) (all_profit e) (resp e) 0
           (daily_wins (rollover (now e) s)) (assets cfg)") auto
  have w1: "w1 = daily_wins (rollover (now e) s) + wins_in ev1"
    by (rule scan_wins [OF sc])
  show ?thesis
    using assms False sc w1
    by (cases x1) (auto simp add: cycle_def Let_def wins_in_append rollover_fields)
qed

lemma run_same_day:
  assumes "last_trade_date s = Some l" and "\<forall>e\<in>set es. date (now e) = date l"
    and "run cfg es s = (evs, y, s')"
  shows "daily_wins s' = daily_wins s + wins_in evs"
  using assms
proof (induction es arbitrary: s l evs y s')
  case Nil
  then show ?case by simp
next
  case (Cons e es)
  obtain ev1 x1 s1 where c: "cycle cfg e s = (ev1, x1, s1)"
    by (cases "cycle cfg e s") auto
  have day: "date (now e) = date l" using Cons.prems(2) by simp
  have step: "daily_wins s1 = daily_wins s + wins_in ev1 \<and>
              (\<exists>l1. last_trade_date s1 = Some l1 \<and> date l1 = date l)"
  proof (cases "news e")
    case True
    then show ?thesis using c Cons.prems(1) by (auto simp add: cycle_news)
  next
    case False
    then show ?thesis
      using cycle_wins [OF False c] Cons.prems(1) day by (simp add: rollover_fields)
  qed
  then obtain l1 where l1: "last_trade_date s1 = Some l1" "date l1 = date l" by auto
  show ?case
  proof (cases x1)
    case (Some exc)
    then show ?thesis using Cons.prems(3) c step by auto
  next
    case None
    obtain ev2 x2 s2 where r: "run cfg es s1 = (ev2, x2, s2)"
      by (cases "run cfg es s1") auto
    have "\<forall>e\<in>set es. date (now e) = date l1" using Cons.prems(2) l1(2) by simp
    then have "daily_wins s2 = daily_wins s1 + wins_in ev2"
      by (rule Cons.IH [OF l1(1) _ r])
    then show ?thesis
      using Cons.prems(3) c r None step by (auto simp add: wins_in_append)
  qed
qed

lemma analyse_no_breakout:
  assumes "df \<noteq> []" and "low (last df) \<le> close (last df)"
    and "close (last df) \<le> high (last df)"
  shows "\<exists>t f. analyse cfg technical pats payout df = Inr (None, t, f)"
proof -
  have ne: "calculate_moving_averages technical df \<noteq> []"
    using assms(1) length_calculate_moving_averages [of technical df] by auto
  have b: "detect_breakout (calculate_moving_averages technical df) = Inr None"
    using well_formed_no_breakout [OF assms]
    by (simp add: detect_breakout_calculate_moving_averages)
  show ?thesis
    using assms(1)
    by (simp add: analyse_def Let_def b detect_trend_nonempty [OF ne]
        volume_ratio_nonempty [OF ne])
qed

lemma analyse_Nil: "analyse cfg technical pats payout [] = Inl KeyError"
  by (simp add: analyse_def)

lemma process_asset_no_breakout:
  assumes "candles_resp r = Inr df"
    and "analyse cfg technical (patterns r) (turbo_payout ap a) df = Inr (None, t, f)"
  shows "process_asset cfg technical ap r wins a =
           (if turbo_payout ap a < min_payout cfg \<or> turbo_payout ap a > max_payout cfg
            then [] else [Get_candles a (timeframe_main cfg) 100], None, wins)"
  using assms by (simp add: process_asset_def Let_def)

lemma process_asset_empty_frame:
  assumes "candles_resp r = Inr []"
  shows "process_asset cfg technical ap r wins a =
           (if turbo_payout ap a < min_payout cfg \<or> turbo_payout ap a > max_payout cfg
            then ([], None, wins)
            else ([Get_candles a (timeframe_main cfg) 100], Some KeyError, wins))"
  using assms by (simp add: process_asset_def Let_def analyse_Nil)

lemma analyse_breakout_candles:
  "analyse example_config (make_analyzer example_config) [(''CDL_DOJI'', 100)] (4 / 5)
     breakout_candles =
   Inr (Some Breakout_up, Up,
        \<lparr>f_pattern_name = ''CDL_DOJI'', f_breakout = Some Breakout_up, f_trend = Up,
         f_volume_ratio = Some 1, f_payout = 4 / 5\<rparr>)"
proof -
  have ne: "breakout_candles \<noteq> []" by (simp add: breakout_candles_def)
  have ne': "calculate_moving_averages (make_analyzer example_config) breakout_candles \<noteq> []"
    using ne length_calculate_moving_averages
      [of "make_analyzer example_config" breakout_candles] by auto
  have b: "detect_breakout (calculate_moving_averages (make_analyzer example_config)
             breakout_candles) = Inr (Some Breakout_up)"
    by (simp add: detect_breakout_calculate_moving_averages detect_breakout_nonempty [OF ne])
       (simp add: breakout_candles_def)
  have t: "detect_trend (calculate_moving_averages (make_analyzer example_config)
             breakout_candles) = Inr Up"
    by (simp add: detect_trend_rolling [OF ne])
       (simp add: rolling_mean_last_available make_analyzer_def example_config_def
          breakout_candles_def fgt_def)
  have v: "volume_ratio (config.volume_period example_config)
             (calculate_moving_averages (make_analyzer example_config) breakout_candles)
           = Inr (Some 1)"
    by (simp add: volume_ratio_calculate_moving_averages volume_ratio_nonempty [OF ne])
       (simp add: rolling_mean_last_available example_config_def breakout_candles_def
          fdiv_def)
  show ?thesis
    using ne by (simp add: analyse_def Let_def b t v first_pattern_def)
qed

lemma scan_continue:
  assumes "process_asset cfg technical ap (rs i) wins a = (ev, None, w)"
  shows "scan cfg technical ap rs i wins (a # rest) =
           (ev @ fst (scan cfg technical ap rs (Suc i) w rest),
            snd (scan cfg technical ap rs (Suc i) w rest))"
  using assms by (simp add: case_prod_beta)

lemma process_asset_fetch_failure:
  assumes "min_payout cfg \<le> turbo_payout ap a" and "turbo_payout ap a \<le> max_payout cfg"
    and "candles_resp r = Inl exc"
  shows "process_asset cfg technical ap r wins a =
           ([Get_candles a (timeframe_main cfg) 100, Log (Candle_error exc)], None, wins)"
  using assms by (simp add: process_asset_def Let_def)

lemma process_asset_order:
  assumes "min_payout cfg \<le> turbo_payout ap a" and "turbo_payout ap a \<le> max_payout cfg"
    and "candles_resp r = Inr df0"
    and "analyse cfg technical (patterns r) (turbo_payout ap a) df0 = Inr (b, tr, feats)"
    and "infer_direction b tr = Some d" and "can_trade r" and "high_chance r"
  shows "process_asset cfg technical ap r wins a =
           ([Get_candles a (timeframe_main cfg) 100, Can_trade a, Predict_high_chance feats,
             Next_amount a (turbo_payout ap a), Log (Entering a d (amount r))]
            @ fst (execute_order r (amount r) a d)
            @ [Register_trade a (snd (execute_order r (amount r) a d)),
               Log_trade feats (snd (execute_order r (amount r) a d))],
            None,
            if snd (execute_order r (amount r) a d) then wins + 1 else wins)"
proof -
  have "b \<noteq> None"
    using assms(5) by (auto simp add: infer_direction_def split: if_splits)
  then show ?thesis
    using assms by (simp add: process_asset_def Let_def case_prod_beta)
qed

lemma execute_order_failure:
  "buy_resp r = Inl exc \<Longrightarrow>
     execute_order r amt a d = ([Buy amt a d, Log (Order_error exc)], False)"
  "buy_resp r = Inr oid \<Longrightarrow> check_win_resp r = Inl exc \<Longrightarrow>
     execute_order r amt a d = ([Buy amt a d, Check_win oid, Log (Order_error exc)], False)"
  by (simp_all add: execute_order_def)

lemma example_band:
  "turbo_payout example_payouts a = 4 / 5"
  "min_payout example_config \<le> turbo_payout example_payouts a"
  "turbo_payout example_payouts a \<le> max_payout example_config"
  by (simp_all add: turbo_payout_def example_payouts_def example_config_def)

lemma analyse_example:
  "analyse example_config (make_analyzer example_config) [(''CDL_DOJI'', 100)]
     (turbo_payout example_payouts a) breakout_candles =
   Inr (Some Breakout_up, Up, example_features)"
  by (simp add: example_band(1) example_features_def analyse_breakout_candles)

lemma process_asset_winning_trade:
  "process_asset example_config (make_analyzer example_config) example_payouts
     winning_trade w a =
   ([Get_candles a 60 100, Can_trade a, Predict_high_chance example_features,
     Next_amount a (4 / 5), Log (Entering a Call 1), Buy 1 a Call, Check_win 7,
     Register_trade a True, Log_trade example_features True], None, w + 1)"
proof -
  have eo: "execute_order winning_trade 1 a Call = ([Buy 1 a Call, Check_win 7], True)"
    by (simp add: execute_order_def winning_trade_def)
  have "process_asset example_config (make_analyzer example_config) example_payouts
     winning_trade w a =
           ([Get_candles a (timeframe_main example_config) 100, Can_trade a,
             Predict_high_chance example_features,
             Next_amount a (turbo_payout example_payouts a),
             Log (Entering a Call (amount winning_trade))]
            @ fst (execute_order winning_trade (amount winning_trade) a Call)
            @ [Register_trade a (snd (execute_order winning_trade (amount winning_trade) a Call)),
               Log_trade example_features
                 (snd (execute_order winning_trade (amount winning_trade) a Call))],
            None,
            if snd (execute_order winning_trade (amount winning_trade) a Call)
            then w + 1 else w)"
    by (rule process_asset_order [OF example_band(2,3), where ?df0.0 = breakout_candles
          and b = "Some Breakout_up" and tr = Up])
       (simp_all add: winning_trade_def analyse_example infer_direction_def)
  moreover have "amount winning_trade = 1" by (simp add: winning_trade_def)
  ultimately show ?thesis
    by (simp add: eo example_band(1)) (simp add: example_config_def)
qed

lemma process_asset_fetch_failure_example:
  "process_asset example_config (make_analyzer example_config) example_payouts
     fetch_failure w a =
   ([Get_candles a 60 100, Log (Candle_error (Broker_exn ''timeout''))], None, w)"
proof -
  have "candles_resp fetch_failure = Inl (Broker_exn ''timeout'')"
    by (simp add: fetch_failure_def)
  from process_asset_fetch_failure [OF example_band(2,3) this]
  show ?thesis by (simp add: example_config_def)
qed

lemma scan_one_win:
  "scan example_config (make_analyzer example_config) example_payouts one_win 0 w
     [''EURUSD'', ''GBPUSD''] =
   ([Get_candles ''EURUSD'' 60 100, Can_trade ''EURUSD'', Predict_high_chance example_features,
     Next_amount ''EURUSD'' (4 / 5), Log (Entering ''EURUSD'' Call 1), Buy 1 ''EURUSD'' Call,
     Check_win 7, Register_trade ''EURUSD'' True, Log_trade example_features True,
     Get_candles ''GBPUSD'' 60 100, Log (Candle_error (Broker_exn ''timeout''))],
    None, w + 1)"
  by (simp add: one_win_def process_asset_winning_trade process_asset_fetch_failure_example)

lemma cycle_one_win:
  assumes "daily_wins (rollover (now winning_cycle) s) < 2"
  shows "cycle example_config winning_cycle s =
   ([Log Main_loop, Check_and_train_daily, Check_high_impact_news, Get_all_profit,
     Get_candles ''EURUSD'' 60 100, Can_trade ''EURUSD'', Predict_high_chance example_features,
     Next_amount ''EURUSD'' (4 / 5), Log (Entering ''EURUSD'' Call 1), Buy 1 ''EURUSD'' Call,
     Check_win 7, Register_trade ''EURUSD'' True, Log_trade example_features True,
     Get_candles ''GBPUSD'' 60 100, Log (Candle_error (Broker_exn ''timeout'')),
     Log Next_cycle, Sleep 60],
    None,
    \<lparr>daily_wins = daily_wins (rollover (now winning_cycle) s) + 1,
     last_trade_date = Some (now winning_cycle)\<rparr>)"
proof -
  have a: "assets example_config = [''EURUSD'', ''GBPUSD'']"
    and c: "stop_win_victories example_config = 2"
    and t: "timeframe_main example_config = 60"
    by (simp_all add: example_config_def)
  have n: "\<not> news winning_cycle" "all_profit winning_cycle = example_payouts"
    "resp winning_cycle = one_win"
    by (simp_all add: winning_cycle_def)
  show ?thesis
    using assms
    by (simp add: cycle_def Let_def a c t n scan_one_win rollover_fields(1)
          del: scan.simps)
qed

lemma run_continue:
  assumes "cycle cfg e s = (ev, None, s1)"
  shows "run cfg (e # es) s = (ev @ fst (run cfg es s1), snd (run cfg es s1))"
  using assms by (simp add: case_prod_beta)

lemma run_two_wins:
  "snd (run example_config [winning_cycle, winning_cycle]
          \<lparr>daily_wins = 0, last_trade_date = None\<rparr>) =
   (None, \<lparr>daily_wins = 2, last_trade_date = Some (now winning_cycle)\<rparr>)"
proof -
  have r1: "daily_wins (rollover (now winning_cycle)
              \<lparr>daily_wins = 0, last_trade_date = None\<rparr>) = 0"
    and r2: "daily_wins (rollover (now winning_cycle)
              \<lparr>daily_wins = 1, last_trade_date = Some (now winning_cycle)\<rparr>) = 1"
    by (simp_all add: rollover_def)
  have c1: "cycle example_config winning_cycle \<lparr>daily_wins = 0, last_trade_date = None\<rparr> =
     (fst (cycle example_config winning_cycle \<lparr>daily_wins = 0, last_trade_date = None\<rparr>),
      None, \<lparr>daily_wins = 1, last_trade_date = Some (now winning_cycle)\<rparr>)"
    using cycle_one_win [of "\<lparr>daily_wins = 0, last_trade_date = None\<rparr>"]
    by (simp add: r1)
  have c2: "cycle example_config winning_cycle
              \<lparr>daily_wins = 1, last_trade_date = Some (now winning_cycle)\<rparr> =
     (fst (cycle example_config winning_cycle
             \<lparr>daily_wins = 1, last_trade_date = Some (now winning_cycle)\<rparr>),
      None, \<lparr>daily_wins = 2, last_trade_date = Some (now winning_cycle)\<rparr>)"
    using cycle_one_win [of "\<lparr>daily_wins = 1, last_trade_date = Some (now winning_cycle)\<rparr>"]
    by (simp add: r2)
  show ?thesis
    by (simp add: run_continue [OF c1] run_continue [OF c2] del: run.simps(2))
qed

section \<open>Claims on the signal aggregation\<close>

text \<open>
  C1. On the window of the scenario (sixty candles, close rising from 100 to 160, fast
  period 5, slow period 20) the trend is \<open>up\<close>, but \<open>detect_breakout\<close> returns no
  breakout: resistance includes the high of the last candle, which is not below its
  close. No direction is inferred.
\<close>

theorem rising_window_no_breakout:
  "length rising_window = 60 \<and>
   close (hd rising_window) = 100 \<and> close (last rising_window) = 160 \<and>
   detect_trend (calculate_moving_averages \<lparr>ma_fast = 5, ma_slow = 20, volume_period = 20\<rparr>
                   rising_window) = Inr Up \<and>
   detect_breakout (calculate_moving_averages \<lparr>ma_fast = 5, ma_slow = 20, volume_period = 20\<rparr>
                      rising_window) = Inr None \<and>
   infer_direction None Up = None"
proof -
  have "detect_breakout rising_window = Inr None"
    by (rule well_formed_no_breakout) (simp_all add: rising_window_facts)
  moreover have "detect_trend (calculate_moving_averages
                    \<lparr>ma_fast = 5, ma_slow = 20, volume_period = 20\<rparr> rising_window) = Inr Up"
    by (simp add: detect_trend_rolling rising_window_facts rising_window_fast
        rising_window_slow fgt_def)
  ultimately show ?thesis
    by (simp add: rising_window_facts detect_breakout_calculate_moving_averages
        infer_direction_def)
qed

text \<open>
  C2. On every window whose candles all satisfy \<open>low \<le> close \<le> high\<close>,
  \<open>detect_breakout\<close> never returns a breakout (it returns none on a non-empty window
  and raises on an empty one). Consequently, processing an instrument with such a window
  calls nothing but the candle fetch: the risk manager is not asked, no direction is
  inferred, no order is placed, and \<open>daily_wins\<close> is unchanged.
\<close>

theorem no_breakout_on_well_formed:
  assumes "\<forall>c\<in>set df. low c \<le> close c \<and> close c \<le> high c"
  shows "(\<forall>b. detect_breakout df \<noteq> Inr (Some b)) \<and>
         (df \<noteq> [] \<longrightarrow> detect_breakout df = Inr None) \<and>
         (candles_resp r = Inr df \<longrightarrow>
            set (fst (process_asset cfg technical ap r wins a))
              \<subseteq> {Get_candles a (timeframe_main cfg) 100} \<and>
            snd (snd (process_asset cfg technical ap r wins a)) = wins)"
proof (cases "df = []")
  case True
  then show ?thesis
    by (auto simp add: detect_breakout_Nil process_asset_empty_frame)
next
  case False
  then have l: "low (last df) \<le> close (last df)" "close (last df) \<le> high (last df)"
    using assms by simp_all
  have b: "detect_breakout df = Inr None"
    by (rule well_formed_no_breakout [OF False l])
  have p: "set (fst (process_asset cfg technical ap r wins a))
              \<subseteq> {Get_candles a (timeframe_main cfg) 100} \<and>
            snd (snd (process_asset cfg technical ap r wins a)) = wins"
    if r: "candles_resp r = Inr df"
  proof -
    obtain t f where "analyse cfg technical (patterns r) (turbo_payout ap a) df = Inr (None, t, f)"
      using analyse_no_breakout [OF False l] by blast
    then show ?thesis
      by (simp add: process_asset_no_breakout [OF r])
  qed
  show ?thesis using b p by simp
qed

text \<open>The hypothesis of C2 at a window of two candles.\<close>

theorem no_breakout_on_well_formed_witness:
  "low (quiet_candles ! 0) \<le> close (quiet_candles ! 0) \<and>
   close (quiet_candles ! 0) \<le> high (quiet_candles ! 0) \<and>
   low (quiet_candles ! 1) \<le> close (quiet_candles ! 1) \<and>
   close (quiet_candles ! 1) \<le> high (quiet_candles ! 1) \<and>
   detect_breakout quiet_candles = Inr None \<and>
   set (fst (process_asset example_config (make_analyzer example_config) example_payouts
          (winning_trade\<lparr>candles_resp := Inr quiet_candles\<rparr>) 0 ''EURUSD''))
     \<subseteq> {Get_candles ''EURUSD'' (timeframe_main example_config) 100} \<and>
   snd (snd (process_asset example_config (make_analyzer example_config) example_payouts
          (winning_trade\<lparr>candles_resp := Inr quiet_candles\<rparr>) 0 ''EURUSD'')) = 0"
proof -
  have wf: "\<forall>c\<in>set quiet_candles. low c \<le> close c \<and> close c \<le> high c"
    by (simp add: quiet_candles_def)
  have ne: "quiet_candles \<noteq> []"
    by (simp add: quiet_candles_def)
  have r: "candles_resp (winning_trade\<lparr>candles_resp := Inr quiet_candles\<rparr>) = Inr quiet_candles"
    by simp
  have v: "low (quiet_candles ! 0) \<le> close (quiet_candles ! 0) \<and>
   close (quiet_candles ! 0) \<le> high (quiet_candles ! 0) \<and>
   low (quiet_candles ! 1) \<le> close (quiet_candles ! 1) \<and>
   close (quiet_candles ! 1) \<le> high (quiet_candles ! 1)"
    by (simp add: quiet_candles_def)
  show ?thesis
    using no_breakout_on_well_formed [OF wf, of "winning_trade\<lparr>candles_resp := Inr quiet_candles\<rparr>"
        example_config "make_analyzer example_config" example_payouts 0 "''EURUSD''"]
      ne r v
    by blast
qed

text \<open>
  C3 (amended). For every non-empty window, with support the minimum of \<open>low\<close> and
  resistance the maximum of \<open>high\<close> over the whole window (the last candle
  included): the result is \<open>breakout_up\<close> iff the last close is strictly above
  resistance; it is \<open>breakout_down\<close> iff the last close is strictly below support
  and not strictly above resistance; and it is no breakout whenever the last close lies
  strictly between support and resistance.
\<close>

theorem breakout_classification:
  assumes "df \<noteq> []"
  shows "((detect_breakout df = Inr (Some Breakout_up)) =
            (close (last df) > Max (set (map high df)))) \<and>
         ((detect_breakout df = Inr (Some Breakout_down)) =
            (close (last df) < Min (set (map low df)) \<and>
             \<not> close (last df) > Max (set (map high df)))) \<and>
         (Min (set (map low df)) < close (last df) \<and>
          close (last df) < Max (set (map high df))
            \<longrightarrow> detect_breakout df = Inr None)"
proof -
  define R where "R = Max (set (map high df))"
  define S where "S = Min (set (map low df))"
  have eq: "detect_breakout df =
              (if close (last df) > R then Inr (Some Breakout_up)
               else if close (last df) < S then Inr (Some Breakout_down)
               else Inr None)"
    unfolding R_def S_def by (rule detect_breakout_nonempty [OF assms])
  have "((detect_breakout df = Inr (Some Breakout_up)) = (close (last df) > R)) \<and>
        ((detect_breakout df = Inr (Some Breakout_down)) =
            (close (last df) < S \<and> \<not> close (last df) > R)) \<and>
        (S < close (last df) \<and> close (last df) < R \<longrightarrow> detect_breakout df = Inr None)"
    by (auto simp add: eq)
  then show ?thesis
    unfolding R_def S_def .
qed

text \<open>The hypothesis of C3 (amended) at a one-candle window.\<close>

theorem breakout_classification_witness:
  "[\<lparr>c_open = 1, high = 2, low = 1, close = 3, volume = 1\<rparr>] \<noteq> [] \<and>
   detect_breakout [\<lparr>c_open = 1, high = 2, low = 1, close = 3, volume = 1\<rparr>]
     = Inr (Some Breakout_up)"
  using breakout_classification [of "[\<lparr>c_open = 1, high = 2, low = 1, close = 3, volume = 1\<rparr>]"]
  by simp

text \<open>
  C3 as stated fails: on a window whose only candle has \<open>low = 10\<close>, \<open>high = 5\<close>
  and \<open>close = 7\<close> the last close is strictly below support, yet the result is
  \<open>breakout_up\<close>, because the test against resistance comes first.
\<close>

theorem breakout_down_counterexample:
  "\<not> ((detect_breakout [\<lparr>c_open = 7, high = 5, low = 10, close = 7, volume = 1\<rparr>]
         = Inr (Some Breakout_down)) =
       (close (last [\<lparr>c_open = 7, high = 5, low = 10, close = 7, volume = 1\<rparr>])
          < Min (set (map low [\<lparr>c_open = 7, high = 5, low = 10, close = 7, volume = 1\<rparr>]))))"
  by (simp add: detect_breakout_def iloc_last_def)

text \<open>
  C4. The inferred direction is \<open>call\<close> iff the breakout is \<open>breakout_up\<close> and
  the trend is \<open>up\<close>, \<open>put\<close> iff the breakout is \<open>breakout_down\<close> and the
  trend is \<open>down\<close>, and there is no direction in every other case, also when the
  breakout is not none and the trend disagrees with it.
\<close>

theorem direction_inference:
  "((infer_direction b t = Some Call) = (b = Some Breakout_up \<and> t = Up)) \<and>
   ((infer_direction b t = Some Put) = (b = Some Breakout_down \<and> t = Down)) \<and>
   ((infer_direction b t = None) =
      (\<not> (b = Some Breakout_up \<and> t = Up) \<and> \<not> (b = Some Breakout_down \<and> t = Down)))"
  by (auto simp add: infer_direction_def)

text \<open>
  C8 (amended). For every non-empty window the volume ratio is a finite number (the
  division is never by zero and never gives NaN); it is greater than or equal to 0
  whenever the most recent volume is; it is exactly 0 whenever the window is shorter
  than the period or the rolling mean volume is NaN or zero; and the composite
  eligibility signal compares that finite number with 1.
\<close>

theorem volume_ratio_safe:
  assumes "df \<noteq> []"
  shows "\<exists>r. volume_ratio p df = Inr (Some r) \<and>
             (0 \<le> volume (last df) \<longrightarrow> 0 \<le> r) \<and>
             (length df < p \<longrightarrow> r = 0) \<and>
             (last (rolling_mean p (map volume df)) = None \<longrightarrow> r = 0) \<and>
             (last (rolling_mean p (map volume df)) = Some 0 \<longrightarrow> r = 0) \<and>
             high_chance_basic b pn (Some r) t =
               (b \<noteq> None \<and> truthy pn \<and> 1 < r \<and> t \<noteq> Flat)"
proof (cases "last (rolling_mean p (map volume df))")
  case None
  then show ?thesis
    using assms by (simp add: volume_ratio_nonempty high_chance_basic_def fgt_def)
next
  case (Some a)
  have long: "\<not> length df < p"
    using rolling_mean_last_short [of "map volume df" p] assms Some by auto
  show ?thesis
  proof (cases "0 < a")
    case True
    then show ?thesis
      using assms Some long
      by (simp add: volume_ratio_nonempty high_chance_basic_def fgt_def fdiv_def)
  next
    case False
    then show ?thesis
      using assms Some long
      by (simp add: volume_ratio_nonempty high_chance_basic_def fgt_def)
  qed
qed

text \<open>The hypotheses of C8 (amended) at a window of two candles: a period of 2 gives a
  ratio that is not negative, a period of 3 (longer than the window) gives 0.\<close>

theorem volume_ratio_safe_witness:
  "quiet_candles \<noteq> [] \<and> 0 \<le> volume (last quiet_candles) \<and>
   (\<exists>r. volume_ratio 2 quiet_candles = Inr (Some r) \<and> 0 \<le> r) \<and>
   length quiet_candles < 3 \<and>
   volume_ratio 3 quiet_candles = Inr (Some 0)"
proof -
  have ne: "quiet_candles \<noteq> []" and v: "0 \<le> volume (last quiet_candles)"
    and l: "length quiet_candles < 3"
    by (simp_all add: quiet_candles_def)
  show ?thesis
    using ne v l
      volume_ratio_safe [OF ne, where p = 2 and b = None and pn = None and t = Flat]
      volume_ratio_safe [OF ne, where p = 3 and b = None and pn = None and t = Flat]
    by auto
qed

text \<open>
  C8 as stated fails: with volumes 10 and -1 and a period of 2 the rolling mean is
  4.5, which is positive, and the ratio is -2/9.
\<close>

theorem volume_ratio_counterexample:
  "volume_ratio 2 [\<lparr>c_open = 1, high = 1, low = 1, close = 1, volume = 10\<rparr>,
                   \<lparr>c_open = 1, high = 1, low = 1, close = 1, volume = - 1\<rparr>]
     = Inr (Some (- (2 / 9))) \<and> \<not> (0::real) \<le> - (2 / 9)"
  by (simp add: volume_ratio_def iloc_last_def rolling_mean_def rolling_mean_at_def fdiv_def)




section \<open>Claims on the session controller\<close>

text \<open>
  C5. On every pass that is not paused by the news check, \<open>last_trade_date\<close> ends as the
  current time, and \<open>daily_wins\<close> ends as the number of winning trades of the pass
  added to 0 if \<open>last_trade_date\<close> was unset or its date was strictly before today's,
  and added to the previous value otherwise. Over any number of passes on the day of
  \<open>last_trade_date\<close>, \<open>daily_wins\<close> grows by exactly one per winning trade and so
  never decreases.
\<close>

theorem daily_wins_rollover:
  "(\<not> news e \<and> cycle cfg e s = (ev, x, s') \<longrightarrow>
      last_trade_date s' = Some (now e) \<and>
      daily_wins s' =
        (case last_trade_date s of None \<Rightarrow> 0
         | Some l \<Rightarrow> if date l < date (now e) then 0 else daily_wins s) + wins_in ev) \<and>
   (last_trade_date s = Some l \<and> (\<forall>e\<in>set es. date (now e) = date l) \<and>
    run cfg es s = (evs, y, s'') \<longrightarrow>
      daily_wins s'' = daily_wins s + wins_in evs \<and> daily_wins s \<le> daily_wins s'')"
proof -
  have a: "last_trade_date s' = Some (now e) \<and>
      daily_wins s' =
        (case last_trade_date s of None \<Rightarrow> 0
         | Some l \<Rightarrow> if date l < date (now e) then 0 else daily_wins s) + wins_in ev"
    if "\<not> news e" "cycle cfg e s = (ev, x, s')"
    using cycle_wins [OF that] by (simp add: rollover_fields)
  have b: "daily_wins s'' = daily_wins s + wins_in evs \<and> daily_wins s \<le> daily_wins s''"
    if "last_trade_date s = Some l" "\<forall>e\<in>set es. date (now e) = date l"
      "run cfg es s = (evs, y, s'')"
    using run_same_day [OF that] wins_in_nonneg [of evs] by simp
  show ?thesis using a b by blast
qed

text \<open>The hypotheses of C5 at a pass on the day after the last one (the counter restarts
  from 0) and at two passes on the day of the last one.\<close>

theorem daily_wins_rollover_witness:
  "\<not> news winning_cycle \<and>
   date \<lparr>date = 10, time_of_day = 0\<rparr> < date (now winning_cycle) \<and>
   last_trade_date (snd (snd (cycle example_config winning_cycle
      \<lparr>daily_wins = 1, last_trade_date = Some \<lparr>date = 10, time_of_day = 0\<rparr>\<rparr>)))
     = Some (now winning_cycle) \<and>
   daily_wins (snd (snd (cycle example_config winning_cycle
      \<lparr>daily_wins = 1, last_trade_date = Some \<lparr>date = 10, time_of_day = 0\<rparr>\<rparr>)))
     = 0 + wins_in (fst (cycle example_config winning_cycle
      \<lparr>daily_wins = 1, last_trade_date = Some \<lparr>date = 10, time_of_day = 0\<rparr>\<rparr>)) \<and>
   daily_wins (snd (snd (run example_config [winning_cycle, news_cycle]
      \<lparr>daily_wins = 0, last_trade_date = Some \<lparr>date = 11, time_of_day = 0\<rparr>\<rparr>)))
     = 0 + wins_in (fst (run example_config [winning_cycle, news_cycle]
      \<lparr>daily_wins = 0, last_trade_date = Some \<lparr>date = 11, time_of_day = 0\<rparr>\<rparr>))"
proof -
  have n: "\<not> news winning_cycle" by (simp add: winning_cycle_def)
  have d: "date \<lparr>date = 10, time_of_day = 0\<rparr> < date (now winning_cycle)"
    by (simp add: winning_cycle_def)
  have e: "\<forall>e\<in>set [winning_cycle, news_cycle].
             date (now e) = date \<lparr>date = 11, time_of_day = 0\<rparr>"
    by (simp add: winning_cycle_def news_cycle_def)
  show ?thesis
    using n d e
      daily_wins_rollover [of winning_cycle example_config
        "\<lparr>daily_wins = 1, last_trade_date = Some \<lparr>date = 10, time_of_day = 0\<rparr>\<rparr>"
        "fst (cycle example_config winning_cycle
           \<lparr>daily_wins = 1, last_trade_date = Some \<lparr>date = 10, time_of_day = 0\<rparr>\<rparr>)"
        "fst (snd (cycle example_config winning_cycle
           \<lparr>daily_wins = 1, last_trade_date = Some \<lparr>date = 10, time_of_day = 0\<rparr>\<rparr>))"
        "snd (snd (cycle example_config winning_cycle
           \<lparr>daily_wins = 1, last_trade_date = Some \<lparr>date = 10, time_of_day = 0\<rparr>\<rparr>))"
        "\<lparr>date = 10, time_of_day = 0\<rparr>" "[]" "[]" None
        "\<lparr>daily_wins = 1, last_trade_date = Some \<lparr>date = 10, time_of_day = 0\<rparr>\<rparr>"]
      daily_wins_rollover [of winning_cycle example_config
        "\<lparr>daily_wins = 0, last_trade_date = Some \<lparr>date = 11, time_of_day = 0\<rparr>\<rparr>"
        "fst (cycle example_config winning_cycle
           \<lparr>daily_wins = 0, last_trade_date = Some \<lparr>date = 11, time_of_day = 0\<rparr>\<rparr>)"
        "fst (snd (cycle example_config winning_cycle
           \<lparr>daily_wins = 0, last_trade_date = Some \<lparr>date = 11, time_of_day = 0\<rparr>\<rparr>))"
        "snd (snd (cycle example_config winning_cycle
           \<lparr>daily_wins = 0, last_trade_date = Some \<lparr>date = 11, time_of_day = 0\<rparr>\<rparr>))"
        "\<lparr>date = 11, time_of_day = 0\<rparr>" "[winning_cycle, news_cycle]"
        "fst (run example_config [winning_cycle, news_cycle]
           \<lparr>daily_wins = 0, last_trade_date = Some \<lparr>date = 11, time_of_day = 0\<rparr>\<rparr>)"
        "fst (snd (run example_config [winning_cycle, news_cycle]
           \<lparr>daily_wins = 0, last_trade_date = Some \<lparr>date = 11, time_of_day = 0\<rparr>\<rparr>))"
        "snd (snd (run example_config [winning_cycle, news_cycle]
           \<lparr>daily_wins = 0, last_trade_date = Some \<lparr>date = 11, time_of_day = 0\<rparr>\<rparr>))"]
    by (simp del: run.simps)
qed

text \<open>
  C6. On every pass that is not paused by the news check and on which \<open>daily_wins\<close>,
  after the rollover check, has reached \<open>stop_win_victories\<close>, the controller logs the
  daily stop, sleeps one hour and ends the pass with the rolled-over session: it asks for
  no payout, fetches no candles and places no order.
\<close>

theorem daily_stop_pause:
  assumes "\<not> news e" and "stop_win_victories cfg \<le> daily_wins (rollover (now e) s)"
  shows "cycle cfg e s =
           ([Log Main_loop, Check_and_train_daily, Check_high_impact_news,
             Log Daily_stop_win, Sleep 3600], None, rollover (now e) s) \<and>
         (\<forall>ev\<in>set (fst (cycle cfg e s)). \<not> scanning ev)"
  by (simp add: cycle_daily_stop [OF assms])

text \<open>The hypotheses of C6 with a cap of 2: two passes with one winning trade each
  bring \<open>daily_wins\<close> to 2, and the next pass is the daily stop.\<close>

theorem daily_stop_pause_witness:
  "\<not> news winning_cycle \<and>
   stop_win_victories example_config = 2 \<and>
   snd (snd (run example_config [winning_cycle, winning_cycle]
               \<lparr>daily_wins = 0, last_trade_date = None\<rparr>)) =
     \<lparr>daily_wins = 2, last_trade_date = Some (now winning_cycle)\<rparr> \<and>
   cycle example_config winning_cycle
     \<lparr>daily_wins = 2, last_trade_date = Some (now winning_cycle)\<rparr> =
     ([Log Main_loop, Check_and_train_daily, Check_high_impact_news, Log Daily_stop_win,
       Sleep 3600],
      None, \<lparr>daily_wins = 2, last_trade_date = Some (now winning_cycle)\<rparr>)"
proof -
  have n: "\<not> news winning_cycle" by (simp add: winning_cycle_def)
  have c: "stop_win_victories example_config = 2" by (simp add: example_config_def)
  have r: "rollover (now winning_cycle)
             \<lparr>daily_wins = 2, last_trade_date = Some (now winning_cycle)\<rparr> =
           \<lparr>daily_wins = 2, last_trade_date = Some (now winning_cycle)\<rparr>"
    by (simp add: rollover_def)
  have h: "stop_win_victories example_config
             \<le> daily_wins (rollover (now winning_cycle)
                  \<lparr>daily_wins = 2, last_trade_date = Some (now winning_cycle)\<rparr>)"
    by (simp add: c r)
  show ?thesis
    using daily_stop_pause [OF n h] n c r by (simp add: run_two_wins del: run.simps)
qed

text \<open>
  C7 (amended). For an instrument whose payout is inside the band: when the candle fetch
  raises, the error is logged, nothing else is done for the instrument, and the loop goes
  on with the remaining instruments from the same \<open>daily_wins\<close>; when \<open>buy\<close> or
  \<open>check_win\<close> raises, the error is logged, the trade is registered as lost, and the
  loop goes on with the remaining instruments from the same \<open>daily_wins\<close>. After
  either failure the only exception that can leave the loop is one of a later instrument.
\<close>

theorem instrument_failures_recoverable:
  assumes "min_payout cfg \<le> turbo_payout ap a" and "turbo_payout ap a \<le> max_payout cfg"
  shows "(candles_resp (rs i) = Inl exc \<longrightarrow>
            scan cfg technical ap rs i wins (a # rest) =
              ([Get_candles a (timeframe_main cfg) 100, Log (Candle_error exc)]
                 @ fst (scan cfg technical ap rs (Suc i) wins rest),
               snd (scan cfg technical ap rs (Suc i) wins rest))) \<and>
         (candles_resp (rs i) = Inr df0 \<and>
          analyse cfg technical (patterns (rs i)) (turbo_payout ap a) df0 = Inr (b, tr, feats) \<and>
          infer_direction b tr = Some d \<and> can_trade (rs i) \<and> high_chance (rs i) \<and>
          buy_resp (rs i) = Inl exc \<longrightarrow>
            scan cfg technical ap rs i wins (a # rest) =
              ([Get_candles a (timeframe_main cfg) 100, Can_trade a, Predict_high_chance feats,
                Next_amount a (turbo_payout ap a), Log (Entering a d (amount (rs i))),
                Buy (amount (rs i)) a d, Log (Order_error exc),
                Register_trade a False, Log_trade feats False]
                 @ fst (scan cfg technical ap rs (Suc i) wins rest),
               snd (scan cfg technical ap rs (Suc i) wins rest))) \<and>
         (candles_resp (rs i) = Inr df0 \<and>
          analyse cfg technical (patterns (rs i)) (turbo_payout ap a) df0 = Inr (b, tr, feats) \<and>
          infer_direction b tr = Some d \<and> can_trade (rs i) \<and> high_chance (rs i) \<and>
          buy_resp (rs i) = Inr oid \<and> check_win_resp (rs i) = Inl exc \<longrightarrow>
            scan cfg technical ap rs i wins (a # rest) =
              ([Get_candles a (timeframe_main cfg) 100, Can_trade a, Predict_high_chance feats,
                Next_amount a (turbo_payout ap a), Log (Entering a d (amount (rs i))),
                Buy (amount (rs i)) a d, Check_win oid, Log (Order_error exc),
                Register_trade a False, Log_trade feats False]
                 @ fst (scan cfg technical ap rs (Suc i) wins rest),
               snd (scan cfg technical ap rs (Suc i) wins rest)))"
proof (intro conjI impI)
  assume "candles_resp (rs i) = Inl exc"
  then have "process_asset cfg technical ap (rs i) wins a =
           ([Get_candles a (timeframe_main cfg) 100, Log (Candle_error exc)], None, wins)"
    by (rule process_asset_fetch_failure [OF assms])
  then show "scan cfg technical ap rs i wins (a # rest) =
              ([Get_candles a (timeframe_main cfg) 100, Log (Candle_error exc)]
                 @ fst (scan cfg technical ap rs (Suc i) wins rest),
               snd (scan cfg technical ap rs (Suc i) wins rest))"
    by (rule scan_continue)
next
  assume h: "candles_resp (rs i) = Inr df0 \<and>
          analyse cfg technical (patterns (rs i)) (turbo_payout ap a) df0 = Inr (b, tr, feats) \<and>
          infer_direction b tr = Some d \<and> can_trade (rs i) \<and> high_chance (rs i) \<and>
          buy_resp (rs i) = Inl exc"
  then have "process_asset cfg technical ap (rs i) wins a =
           ([Get_candles a (timeframe_main cfg) 100, Can_trade a, Predict_high_chance feats,
                Next_amount a (turbo_payout ap a), Log (Entering a d (amount (rs i))),
                Buy (amount (rs i)) a d, Log (Order_error exc),
                Register_trade a False, Log_trade feats False], None, wins)"
    using process_asset_order [OF assms, of "rs i" df0 technical b tr feats d wins]
    by (simp add: execute_order_failure(1))
  then show "scan cfg technical ap rs i wins (a # rest) =
              ([Get_candles a (timeframe_main cfg) 100, Can_trade a, Predict_high_chance feats,
                Next_amount a (turbo_payout ap a), Log (Entering a d (amount (rs i))),
                Buy (amount (rs i)) a d, Log (Order_error exc),
                Register_trade a False, Log_trade feats False]
                 @ fst (scan cfg technical ap rs (Suc i) wins rest),
               snd (scan cfg technical ap rs (Suc i) wins rest))"
    by (rule scan_continue)
next
  assume h: "candles_resp (rs i) = Inr df0 \<and>
          analyse cfg technical (patterns (rs i)) (turbo_payout ap a) df0 = Inr (b, tr, feats) \<and>
          infer_direction b tr = Some d \<and> can_trade (rs i) \<and> high_chance (rs i) \<and>
          buy_resp (rs i) = Inr oid \<and> check_win_resp (rs i) = Inl exc"
  then have "process_asset cfg technical ap (rs i) wins a =
           ([Get_candles a (timeframe_main cfg) 100, Can_trade a, Predict_high_chance feats,
                Next_amount a (turbo_payout ap a), Log (Entering a d (amount (rs i))),
                Buy (amount (rs i)) a d, Check_win oid, Log (Order_error exc),
                Register_trade a False, Log_trade feats False], None, wins)"
    using process_asset_order [OF assms, of "rs i" df0 technical b tr feats d wins]
    by (simp add: execute_order_failure(2))
  then show "scan cfg technical ap rs i wins (a # rest) =
              ([Get_candles a (timeframe_main cfg) 100, Can_trade a, Predict_high_chance feats,
                Next_amount a (turbo_payout ap a), Log (Entering a d (amount (rs i))),
                Buy (amount (rs i)) a d, Check_win oid, Log (Order_error exc),
                Register_trade a False, Log_trade feats False]
                 @ fst (scan cfg technical ap rs (Suc i) wins rest),
               snd (scan cfg technical ap rs (Suc i) wins rest))"
    by (rule scan_continue)
qed

text \<open>The hypotheses of C7 at a scan of two instruments: the fetch of the first fails,
  the order of the second is rejected.\<close>

theorem instrument_failures_recoverable_witness:
  "min_payout example_config \<le> turbo_payout example_payouts ''EURUSD'' \<and>
   turbo_payout example_payouts ''EURUSD'' \<le> max_payout example_config \<and>
   candles_resp (example_failures 0) = Inl (Broker_exn ''timeout'') \<and>
   buy_resp (example_failures 1) = Inl (Broker_exn ''rejected'') \<and>
   scan example_config (make_analyzer example_config) example_payouts example_failures 0 0
     [''EURUSD'', ''GBPUSD''] =
   ([Get_candles ''EURUSD'' 60 100, Log (Candle_error (Broker_exn ''timeout'')),
     Get_candles ''GBPUSD'' 60 100, Can_trade ''GBPUSD'', Predict_high_chance example_features,
     Next_amount ''GBPUSD'' (4 / 5), Log (Entering ''GBPUSD'' Call 1), Buy 1 ''GBPUSD'' Call,
     Log (Order_error (Broker_exn ''rejected'')), Register_trade ''GBPUSD'' False,
     Log_trade example_features False],
    None, 0)"
proof -
  have f0: "candles_resp (example_failures 0) = Inl (Broker_exn ''timeout'')"
    by (simp add: example_failures_def fetch_failure_def)
  have f1: "candles_resp (example_failures (Suc 0)) = Inr breakout_candles \<and>
          analyse example_config (make_analyzer example_config)
            (patterns (example_failures (Suc 0))) (turbo_payout example_payouts ''GBPUSD'')
            breakout_candles = Inr (Some Breakout_up, Up, example_features) \<and>
          infer_direction (Some Breakout_up) Up = Some Call \<and>
          can_trade (example_failures (Suc 0)) \<and> high_chance (example_failures (Suc 0)) \<and>
          buy_resp (example_failures (Suc 0)) = Inl (Broker_exn ''rejected'')"
    by (simp add: example_failures_def order_failure_def analyse_example infer_direction_def)
  have a1: "amount (example_failures (Suc 0)) = 1"
    by (simp add: example_failures_def order_failure_def)
  have t: "timeframe_main example_config = 60" by (simp add: example_config_def)
  have band: "min_payout example_config \<le> turbo_payout example_payouts ''EURUSD'' \<and>
              turbo_payout example_payouts ''EURUSD'' \<le> max_payout example_config"
    by (simp only: example_band(2,3))
  show ?thesis
    using f0 f1 a1 t band
      instrument_failures_recoverable [where cfg = example_config and ap = example_payouts
        and a = "''EURUSD''" and rs = example_failures and i = 0
        and exc = "Broker_exn ''timeout''" and technical = "make_analyzer example_config"
        and wins = 0 and rest = "[''GBPUSD'']", OF example_band(2,3)]
      instrument_failures_recoverable [where cfg = example_config and ap = example_payouts
        and a = "''GBPUSD''" and rs = example_failures and i = "Suc 0"
        and exc = "Broker_exn ''rejected''" and technical = "make_analyzer example_config"
        and wins = 0 and rest = "[]" and ?df0.0 = breakout_candles
        and b = "Some Breakout_up" and tr = Up and feats = example_features and d = Call,
        OF example_band(2,3)]
    by (simp add: example_band(1) del: scan.simps(2))
qed

text \<open>
  C7 as stated fails: not every failure of an instrument stays inside the loop. When the
  fetch succeeds with no candle, \<open>df['close']\<close> raises KeyError outside both
  \<open>try\<close> blocks; the exception leaves the loop and the second instrument, whose
  answers would give a winning trade, is never looked at.
\<close>

theorem empty_frame_escapes_counterexample:
  "candles_resp (empty_then_win 0) = Inr [] \<and>
   scan example_config (make_analyzer example_config) example_payouts empty_then_win 0 0
     [''EURUSD'', ''GBPUSD''] =
   ([Get_candles ''EURUSD'' 60 100], Some KeyError, 0)"
proof -
  have r: "candles_resp (empty_then_win 0) = Inr []"
    by (simp add: empty_then_win_def empty_frame_def)
  have b: "\<not> (turbo_payout example_payouts ''EURUSD'' < min_payout example_config \<or>
              turbo_payout example_payouts ''EURUSD'' > max_payout example_config)"
    using example_band(2,3) [of "''EURUSD''"] by simp
  have t: "timeframe_main example_config = 60" by (simp add: example_config_def)
  have "process_asset example_config (make_analyzer example_config) example_payouts
          (empty_then_win 0) 0 ''EURUSD'' = ([Get_candles ''EURUSD'' 60 100], Some KeyError, 0)"
    using b by (simp only: process_asset_empty_frame [OF r] if_False t)
  then show ?thesis
    using r by simp
qed

text \<open>
  C10. On every pass on which the news check reports an event, the controller logs,
  sleeps 60 seconds and ends the pass: it makes no call that scans or trades an
  instrument, and \<open>daily_wins\<close> and \<open>last_trade_date\<close> are what they were.
\<close>

theorem news_pause:
  assumes "news e"
  shows "cycle cfg e s =
           ([Log Main_loop, Check_and_train_daily, Check_high_impact_news,
             Log News_wait, Sleep 60], None, s) \<and>
         (\<forall>ev\<in>set (fst (cycle cfg e s)). \<not> scanning ev) \<and>
         daily_wins (snd (snd (cycle cfg e s))) = daily_wins s \<and>
         last_trade_date (snd (snd (cycle cfg e s))) = last_trade_date s"
  by (simp add: cycle_news [OF assms])

text \<open>The hypothesis of C10 at a session with one win on day 10.\<close>

theorem news_pause_witness:
  "news news_cycle \<and>
   cycle example_config news_cycle
     \<lparr>daily_wins = 1, last_trade_date = Some \<lparr>date = 10, time_of_day = 0\<rparr>\<rparr> =
     ([Log Main_loop, Check_and_train_daily, Check_high_impact_news, Log News_wait, Sleep 60],
      None, \<lparr>daily_wins = 1, last_trade_date = Some \<lparr>date = 10, time_of_day = 0\<rparr>\<rparr>)"
proof -
  have n: "news news_cycle" by (simp add: news_cycle_def)
  show ?thesis
    using news_pause [OF n, of example_config
        "\<lparr>daily_wins = 1, last_trade_date = Some \<lparr>date = 10, time_of_day = 0\<rparr>\<rparr>"] n
    by blast
qed

end
